theory Spec2Isabelle
  imports Complex_Main
begin

chapter \<open>The ingestion pipeline of acm_scholar_cli\<close>

text \<open>
  A shallow embedding of \<^verbatim>\<open>acm_scholar_cli/core/downloader.py\<close> (class
  \<^verbatim>\<open>PaperDownloader\<close>) and \<^verbatim>\<open>acm_scholar_cli/db/surrealdb.py\<close> (class
  \<^verbatim>\<open>SurrealDBClient\<close>). Python strings are lists of characters, Python integers are
  \<^typ>\<open>int\<close>, a call that raises returns \<open>Inl\<close> of the exception, and a loop that may
  run forever returns \<^typ>\<open>'a option\<close> with \<open>None\<close> for a run that never ends.
\<close>

section \<open>Definitions\<close>

subsection \<open>Slicing\<close>

text \<open>
  Python's \<^verbatim>\<open>xs[i:j]\<close>: a negative bound counts from the end, and both bounds are then
  clamped to \<open>0 .. len(xs)\<close>. The slice is empty when the bounds cross.
\<close>

definition py_clamp :: "nat \<Rightarrow> int \<Rightarrow> nat" where
  "py_clamp n i = (if i < 0 then nat (max (i + int n) 0) else min (nat i) n)"

definition py_slice :: "'a list \<Rightarrow> int \<Rightarrow> int \<Rightarrow> 'a list" where
  "py_slice xs i j =
     (let a = py_clamp (length xs) i; b = py_clamp (length xs) j
      in take (b - a) (drop a xs))"

subsection \<open>The chunker: \<^verbatim>\<open>PaperDownloader._chunk_text\<close>\<close>

text \<open>
  \<^verbatim>\<open>
  chunks = []
  start = 0
  text_len = len(text)
  while start < text_len:
      end = min(start + chunk_size, text_len)
      chunks.append(text[start:end])
      start = end - overlap
      if start >= text_len:
          break
  return chunks
  \<close>
  The loop state is the pair \<open>(start, chunks)\<close>. \<open>chunk_step\<close> is the loop body up to
  the assignment of \<open>start\<close>; \<open>chunk_loop\<close> is the loop with its two exits. The source
  has no \<^verbatim>\<open>raise\<close>, and \<^verbatim>\<open>min\<close>, slicing and \<^verbatim>\<open>append\<close> do not raise on
  these types, so a call either returns the list (\<open>Some\<close>) or never returns (\<open>None\<close>).
\<close>

definition chunk_step ::
  "'a list \<Rightarrow> int \<Rightarrow> int \<Rightarrow> int \<times> 'a list list \<Rightarrow> int \<times> 'a list list" where
  "chunk_step text chunk_size overlap st =
     (let endpos = min (fst st + chunk_size) (int (length text))
      in (endpos - overlap, snd st @ [py_slice text (fst st) endpos]))"

partial_function (option) chunk_loop ::
  "'a list \<Rightarrow> int \<Rightarrow> int \<Rightarrow> int \<times> 'a list list \<Rightarrow> 'a list list option" where
  "chunk_loop text chunk_size overlap st =
     (if fst st < int (length text) then
        (let st' = chunk_step text chunk_size overlap st
         in if int (length text) \<le> fst st' then Some (snd st')
            else chunk_loop text chunk_size overlap st')
      else Some (snd st))"

declare chunk_loop.simps [code]

definition chunk_text :: "'a list \<Rightarrow> int \<Rightarrow> int \<Rightarrow> 'a list list option" where
  "chunk_text text chunk_size overlap = chunk_loop text chunk_size overlap (0, [])"

text \<open>
  The chunk count of the specification, in its words:
  \<open>ceil(max(L - overlap, 0) / (size - overlap))\<close> when \<open>L > 0\<close>, else 0. \<open>ceil_div\<close> is the
  same ceiling computed with integer division.
\<close>

definition spec_chunk_count :: "nat \<Rightarrow> int \<Rightarrow> int \<Rightarrow> int" where
  "spec_chunk_count L chunk_size overlap =
     (if 0 < L
      then \<lceil>real_of_int (max (int L - overlap) 0) / real_of_int (chunk_size - overlap)\<rceil>
      else 0)"

definition ceil_div :: "int \<Rightarrow> int \<Rightarrow> int" where
  "ceil_div a b = - ((- a) div b)"

text \<open>
  The re-assembly of the specification, in its words: drop the first \<open>overlap\<close>
  characters of every chunk except the first, and concatenate in order.
\<close>

fun spec_reassemble :: "nat \<Rightarrow> 'a list list \<Rightarrow> 'a list" where
  "spec_reassemble overlap [] = []"
| "spec_reassemble overlap (c # cs) = c @ concat (map (drop overlap) cs)"

subsection \<open>Exceptions and Python's string operations\<close>

text \<open>
  The exceptions the modelled code can raise. \<open>Wrapped s e\<close> stands for the source's
  \<^verbatim>\<open>raise Exception(f"<message of site s>: {e}")\<close> inside an \<^verbatim>\<open>except Exception as e\<close>
  handler; the message texts themselves are not modelled. \<open>LibraryError\<close> is any other
  exception raised inside an external library (pypdf, sentence_transformers, the
  store client).
\<close>

datatype site = ExtractText | AddPaper | AddChunk | DeletePaper

datatype error =
    NameError string
  | IndexError
  | ValueError
  | ImportError string
  | HTTPStatusError
  | TransportError
  | LibraryError string
  | Wrapped site error

text \<open>
  A character is a code point below 256. \<^verbatim>\<open>str.isalnum\<close> and \<^verbatim>\<open>str.isspace\<close> on these
  code points, as CPython tabulates them: the ASCII digits and letters, and in the upper
  half the letters, superscript digits and vulgar fractions of Latin-1.
\<close>

definition py_isalnum :: "char \<Rightarrow> bool" where
  "py_isalnum c =
     (let n = (of_char c :: nat)
      in (48 \<le> n \<and> n \<le> 57) \<or> (65 \<le> n \<and> n \<le> 90) \<or> (97 \<le> n \<and> n \<le> 122) \<or>
         n \<in> {170, 178, 179, 181, 185, 186, 188, 189, 190} \<or>
         (192 \<le> n \<and> n \<le> 214) \<or> (216 \<le> n \<and> n \<le> 246) \<or> 248 \<le> n)"

definition py_isspace :: "char \<Rightarrow> bool" where
  "py_isspace c =
     (let n = (of_char c :: nat)
      in (9 \<le> n \<and> n \<le> 13) \<or> (28 \<le> n \<and> n \<le> 32) \<or> n = 133 \<or> n = 160)"

text \<open>\<^verbatim>\<open>s.strip()\<close>, \<^verbatim>\<open>s.replace(" ", "_")\<close> and \<^verbatim>\<open>s.split()\<close> (split on runs of whitespace).\<close>

definition py_strip :: "string \<Rightarrow> string" where
  "py_strip s = rev (dropWhile py_isspace (rev (dropWhile py_isspace s)))"

definition replace_spaces :: "string \<Rightarrow> string" where
  "replace_spaces s = map (\<lambda>c. if c = CHR '' '' then CHR ''_'' else c) s"

fun split_words :: "string \<Rightarrow> string \<Rightarrow> string list" where
  "split_words cur [] = (if cur = [] then [] else [cur])"
| "split_words cur (c # cs) =
     (if py_isspace c
      then (if cur = [] then split_words [] cs else cur # split_words [] cs)
      else split_words (cur @ [c]) cs)"

definition py_split :: "string \<Rightarrow> string list" where
  "py_split s = split_words [] s"

text \<open>\<^verbatim>\<open>sep.join(parts)\<close>.\<close>

fun py_join :: "string \<Rightarrow> string list \<Rightarrow> string" where
  "py_join sep [] = []"
| "py_join sep [x] = x"
| "py_join sep (x # y # ys) = x @ sep @ py_join sep (y # ys)"

text \<open>\<^verbatim>\<open>str(n)\<close> of an integer, as an f-string renders it: decimal, with a leading minus sign.\<close>

fun str_nat :: "nat \<Rightarrow> string" where
  "str_nat n =
     (if n < 10 then [char_of (48 + n)] else str_nat (n div 10) @ [char_of (48 + n mod 10)])"

declare str_nat.simps [simp del]

definition py_str_int :: "int \<Rightarrow> string" where
  "py_str_int i = (if i < 0 then CHR ''-'' # str_nat (nat (- i)) else str_nat (nat i))"

text \<open>Truthiness of an \<^verbatim>\<open>Optional[str]\<close>: \<^verbatim>\<open>None\<close> and the empty string are false.\<close>

definition py_truthy :: "string option \<Rightarrow> bool" where
  "py_truthy v = (case v of None \<Rightarrow> False | Some s \<Rightarrow> s \<noteq> [])"

subsection \<open>The destination file name: \<^verbatim>\<open>PaperDownloader.download_pdf\<close>, first part\<close>

text \<open>
  The paper dictionary, with the keys the code reads. A field is \<open>None\<close> when the key is
  absent (\<^verbatim>\<open>dict.get\<close> then returns its default); a present key holds a value of the type
  the metadata source gives it.
  \<^verbatim>\<open>
  title = paper.get("title", "unknown")
  safe_title = "".join(c for c in title if c.isalnum() or c in (" ", "-", "_"))[:50]
  safe_title = safe_title.strip().replace(" ", "_")
  year = paper.get("publication_year", "unknown")
  authors = paper.get("authorships", [])
  if authors:
      first_author = authors[0].get("author", {}).get("display_name", "unknown")
      author_lastname = first_author.split()[-1] if " " in first_author else first_author
  else:
      author_lastname = "unknown"
  filename = f"{author_lastname}_{year}_{safe_title}.pdf"
  \<close>
\<close>

record author_info =
  display_name :: "string option"

record authorship =
  author :: "author_info option"

record paper =
  paper_id :: "string option"
  title :: "string option"
  publication_year :: "int option"
  authorships :: "authorship list option"
  abstract :: "string option"
  local_path :: "string option"
  doi :: "string option"

definition retained :: "char \<Rightarrow> bool" where
  "retained c = (py_isalnum c \<or> c \<in> {CHR '' '', CHR ''-'', CHR ''_''})"

definition safe_title :: "string \<Rightarrow> string" where
  "safe_title t = replace_spaces (py_strip (take 50 (filter retained t)))"

definition first_author_name :: "authorship \<Rightarrow> string" where
  "first_author_name a =
     (case author a of
        None \<Rightarrow> ''unknown''
      | Some info \<Rightarrow> (case display_name info of None \<Rightarrow> ''unknown'' | Some n \<Rightarrow> n))"

definition author_lastname :: "authorship list \<Rightarrow> error + string" where
  "author_lastname authors =
     (case authors of
        [] \<Rightarrow> Inr ''unknown''
      | a # _ \<Rightarrow>
          (let first_author = first_author_name a
           in if CHR '' '' \<in> set first_author
              then (case py_split first_author of
                      [] \<Rightarrow> Inl IndexError
                    | w # ws \<Rightarrow> Inr (last (w # ws)))
              else Inr first_author))"

definition download_filename :: "paper \<Rightarrow> error + string" where
  "download_filename p =
     (let t = (case title p of None \<Rightarrow> ''unknown'' | Some s \<Rightarrow> s);
          year = (case publication_year p of None \<Rightarrow> ''unknown'' | Some y \<Rightarrow> py_str_int y);
          authors = (case authorships p of None \<Rightarrow> [] | Some as \<Rightarrow> as)
      in case author_lastname authors of
           Inl e \<Rightarrow> Inl e
         | Inr lastname \<Rightarrow> Inr (lastname @ ''_'' @ year @ ''_'' @ safe_title t @ ''.pdf''))"

text \<open>
  The file name of the specification, in the claim's words: the title with only
  alphanumerics, spaces, dashes and underscores retained, truncated to 50 characters, and
  spaces replaced by underscores; the surname of the last author in the list.
\<close>

definition spec_sanitized_title :: "string \<Rightarrow> string" where
  "spec_sanitized_title t = replace_spaces (take 50 (filter retained t))"

definition spec_surname :: "string \<Rightarrow> string" where
  "spec_surname name = (case py_split name of [] \<Rightarrow> name | w # ws \<Rightarrow> last (w # ws))"

definition spec_filename :: "string \<Rightarrow> int \<Rightarrow> string list \<Rightarrow> string" where
  "spec_filename t y names =
     spec_surname (last names) @ ''_'' @ py_str_int y @ ''_'' @ spec_sanitized_title t @ ''.pdf''"

subsection \<open>Writing the download: \<^verbatim>\<open>PaperDownloader.download_pdf\<close>, second part\<close>

text \<open>
  \<^verbatim>\<open>
  file_path = self.download_dir / filename
  with httpx.stream("GET", url, follow_redirects=True, timeout=60.0) as response:
      response.raise_for_status()
      total_size = int(response.headers.get("content-length", 0))
      with open(file_path, "wb") as f:
          downloaded = 0
          for chunk in response.iter_bytes(chunk_size=8192):
              f.write(chunk)
              downloaded += len(chunk)
              if progress and total_size > 0:
                  progress.update(progress.tasks[0].id, advance=len(chunk), total=total_size)
  return file_path
  \<close>
  The file system is a map from paths to contents; a path is the pair of the download
  directory and the file name that \<^verbatim>\<open>download_dir / filename\<close> joins. The HTTP exchange
  is given by what the code observes of it: whether the connection is made, whether the
  final status is an error, the content-length header, the buffers \<^verbatim>\<open>iter_bytes\<close>
  yields, and whether the stream breaks after them. \<^verbatim>\<open>progress\<close> is \<open>None\<close> or the number
  of tasks of the \<^verbatim>\<open>Progress\<close> object (\<^verbatim>\<open>tasks[0]\<close> raises on none); what the progress
  bar displays is not modelled. Opening the destination for writing is taken to succeed.
\<close>

type_synonym bytes = "char list"

type_synonym path = "string \<times> string"

type_synonym filesystem = "path \<rightharpoonup> bytes"

datatype content_length = Absent | Numeric int | Malformed

record response =
  status_ok :: bool
  content_length_header :: content_length
  body :: "bytes list"
  stream_fails :: bool

definition total_size_of :: "content_length \<Rightarrow> error + int" where
  "total_size_of h = (case h of Absent \<Rightarrow> Inr 0 | Numeric n \<Rightarrow> Inr n | Malformed \<Rightarrow> Inl ValueError)"

definition file_write :: "path \<Rightarrow> bytes \<Rightarrow> filesystem \<Rightarrow> filesystem" where
  "file_write file_path chunk fs =
     fs(file_path \<mapsto> (case fs file_path of None \<Rightarrow> chunk | Some old \<Rightarrow> old @ chunk))"

fun write_chunks ::
  "nat option \<Rightarrow> int \<Rightarrow> path \<Rightarrow> bytes list \<Rightarrow> filesystem \<Rightarrow> (error + unit) \<times> filesystem" where
  "write_chunks progress total_size file_path [] fs = (Inr (), fs)"
| "write_chunks progress total_size file_path (chunk # rest) fs =
     (let fs' = file_write file_path chunk fs
      in if progress \<noteq> None \<and> 0 < total_size
         then (if progress = Some 0 then (Inl IndexError, fs')
               else write_chunks progress total_size file_path rest fs')
         else write_chunks progress total_size file_path rest fs')"

definition fetch_body ::
  "nat option \<Rightarrow> path \<Rightarrow> error + response \<Rightarrow> filesystem \<Rightarrow> (error + path) \<times> filesystem" where
  "fetch_body progress file_path connection fs =
     (case connection of
        Inl e \<Rightarrow> (Inl e, fs)
      | Inr resp \<Rightarrow>
          if \<not> status_ok resp then (Inl HTTPStatusError, fs)
          else (case total_size_of (content_length_header resp) of
                  Inl e \<Rightarrow> (Inl e, fs)
                | Inr total_size \<Rightarrow>
                    (case write_chunks progress total_size file_path (body resp)
                            (fs(file_path \<mapsto> [])) of
                       (Inl e, fs') \<Rightarrow> (Inl e, fs')
                     | (Inr u, fs') \<Rightarrow>
                         if stream_fails resp then (Inl TransportError, fs')
                         else (Inr file_path, fs'))))"

definition download_pdf ::
  "string \<Rightarrow> paper \<Rightarrow> error + response \<Rightarrow> nat option \<Rightarrow> filesystem
     \<Rightarrow> (error + path) \<times> filesystem" where
  "download_pdf download_dir p connection progress fs =
     (case download_filename p of
        Inl e \<Rightarrow> (Inl e, fs)
      | Inr filename \<Rightarrow> fetch_body progress (download_dir, filename) connection fs)"

subsection \<open>The text extractor: \<^verbatim>\<open>PaperDownloader._extract_text\<close>\<close>

text \<open>
  \<^verbatim>\<open>
  try:
      import pypdf
      reader = pypdf.PdfReader(str(file_path))
      text_parts = []
      for page in reader.pages:
          text = page.extract_text()
          if text:
              text_parts.append(text)
      return "\n\n".join(text_parts)
  except Exception as e:
      raise Exception(f"...: {e}")
  \<close>
  pypdf is external: a page is what its \<^verbatim>\<open>extract_text()\<close> does, return a string or
  raise, and opening a file gives its pages or raises (the library is not installed, the
  file is missing or is not a PDF). One \<^verbatim>\<open>try\<close> encloses the import, the open and the
  whole loop.
\<close>

type_synonym page = "error + string"

type_synonym pdf_reader = "bytes option \<Rightarrow> error + page list"

fun collect_pages :: "page list \<Rightarrow> string list \<Rightarrow> error + string list" where
  "collect_pages [] text_parts = Inr text_parts"
| "collect_pages (pg # pages) text_parts =
     (case pg of
        Inl e \<Rightarrow> Inl e
      | Inr t \<Rightarrow> collect_pages pages (if t \<noteq> [] then text_parts @ [t] else text_parts))"

definition paragraph_break :: string where
  "paragraph_break = [CHR 0x0A, CHR 0x0A]"

definition extract_text :: "pdf_reader \<Rightarrow> filesystem \<Rightarrow> path \<Rightarrow> error + string" where
  "extract_text pypdf fs file_path =
     (case pypdf (fs file_path) of
        Inl e \<Rightarrow> Inl (Wrapped ExtractText e)
      | Inr pages \<Rightarrow>
          (case collect_pages pages [] of
             Inl e \<Rightarrow> Inl (Wrapped ExtractText e)
           | Inr text_parts \<Rightarrow> Inr (py_join paragraph_break text_parts)))"

subsection \<open>Embeddings and indexing: \<^verbatim>\<open>index_paper\<close> and its helpers\<close>

text \<open>
  The methods below print through a global \<^verbatim>\<open>console\<close>. A global name is looked up
  when the statement runs, in the module's namespace, and raises \<^verbatim>\<open>NameError\<close> when
  nothing has bound it. The namespace is a parameter of the model, the list of bound
  names; \<open>downloader_globals\<close> is the namespace that \<^verbatim>\<open>downloader.py\<close> itself builds: its
  imports (\<^verbatim>\<open>Path\<close>, \<^verbatim>\<open>Optional\<close>, \<^verbatim>\<open>httpx\<close>, \<^verbatim>\<open>Progress\<close>, \<^verbatim>\<open>Config\<close>) and its class. It
  does not bind \<^verbatim>\<open>console\<close>; the sibling modules \<^verbatim>\<open>download.py\<close>, \<^verbatim>\<open>search.py\<close>,
  \<^verbatim>\<open>chat.py\<close>, \<^verbatim>\<open>library.py\<close>, \<^verbatim>\<open>config.py\<close> and \<^verbatim>\<open>data_cmd.py\<close> each do, with
  \<^verbatim>\<open>console = Console()\<close>.
\<close>

type_synonym namespace = "string list"

definition downloader_globals :: namespace where
  "downloader_globals =
     [''Path'', ''Optional'', ''httpx'', ''Progress'', ''Config'', ''PaperDownloader'']"

definition console_print :: "namespace \<Rightarrow> error + unit" where
  "console_print globals =
     (if ''console'' \<in> set globals then Inr () else Inl (NameError ''console''))"

text \<open>
  The configuration fields the code reads: \<^verbatim>\<open>config.database.host\<close>,
  \<^verbatim>\<open>config.llm.api_key\<close> and \<^verbatim>\<open>config.llm.provider\<close>, each an \<^verbatim>\<open>Optional[str]\<close>.
\<close>

record config =
  database_host :: "string option"
  llm_api_key :: "string option"
  llm_provider :: "string option"

text \<open>
  \<^verbatim>\<open>
  def _generate_remote_embeddings(self, chunks):
      console.print(...)
      return []
  def _generate_local_embeddings(self, chunks):
      try:
          from sentence_transformers import SentenceTransformer
          console.print(...)
          model = SentenceTransformer("all-MiniLM-L6-v2")
          embeddings = model.encode(chunks, show_progress_bar=True)
          return embeddings.tolist()
      except ImportError:
          console.print(...)
          return []
  def _generate_embeddings(self, chunks):
      if self.config.llm.api_key and self.config.llm.provider != "ollama":
          return self._generate_remote_embeddings(chunks)
      else:
          return self._generate_local_embeddings(chunks)
  \<close>
  The local library is \<open>None\<close> when it cannot be imported, else the function that loads
  the model and encodes the chunks (it may raise). A vector is of any type \<open>'v\<close>.
\<close>

type_synonym 'v encoder = "string list \<Rightarrow> error + 'v list"

definition generate_remote_embeddings :: "namespace \<Rightarrow> string list \<Rightarrow> error + 'v list" where
  "generate_remote_embeddings globals chunks =
     (case console_print globals of Inl e \<Rightarrow> Inl e | Inr u \<Rightarrow> Inr [])"

definition import_error_handler :: "namespace \<Rightarrow> error + 'v list" where
  "import_error_handler globals =
     (case console_print globals of Inl e \<Rightarrow> Inl e | Inr u \<Rightarrow> Inr [])"

definition generate_local_embeddings ::
  "namespace \<Rightarrow> 'v encoder option \<Rightarrow> string list \<Rightarrow> error + 'v list" where
  "generate_local_embeddings globals sentence_transformers chunks =
     (case sentence_transformers of
        None \<Rightarrow> import_error_handler globals
      | Some encode \<Rightarrow>
          (case console_print globals of
             Inl e \<Rightarrow> Inl e
           | Inr u \<Rightarrow>
               (case encode chunks of
                  Inl (ImportError m) \<Rightarrow> import_error_handler globals
                | Inl e \<Rightarrow> Inl e
                | Inr embeddings \<Rightarrow> Inr embeddings)))"

definition generate_embeddings ::
  "namespace \<Rightarrow> config \<Rightarrow> 'v encoder option \<Rightarrow> string list \<Rightarrow> error + 'v list" where
  "generate_embeddings globals cfg sentence_transformers chunks =
     (if py_truthy (llm_api_key cfg) \<and> llm_provider cfg \<noteq> Some ''ollama''
      then generate_remote_embeddings globals chunks
      else generate_local_embeddings globals sentence_transformers chunks)"

text \<open>
  \<^verbatim>\<open>
  def _store_in_db(self, paper, chunks, embeddings):
      console.print(...)
      return ""
  def index_paper(self, paper, file_path):
      if not self.config.database.host:
          console.print(...)
          return ""
      text = self._extract_text(file_path)
      chunks = self._chunk_text(text)
      embeddings = self._generate_embeddings(chunks)
      paper_id = self._store_in_db(paper, chunks, embeddings)
      return paper_id
  \<close>
  \<open>index_paper\<close> returns \<open>None\<close> when the chunker does not return, else what the call
  returned or raised, with the file system it leaves.
\<close>

definition store_in_db ::
  "namespace \<Rightarrow> paper \<Rightarrow> string list \<Rightarrow> 'v list \<Rightarrow> error + string" where
  "store_in_db globals p chunks embeddings =
     (case console_print globals of Inl e \<Rightarrow> Inl e | Inr u \<Rightarrow> Inr '''')"

definition index_paper ::
  "namespace \<Rightarrow> config \<Rightarrow> pdf_reader \<Rightarrow> 'v encoder option \<Rightarrow> paper \<Rightarrow> path \<Rightarrow> filesystem
     \<Rightarrow> ((error + string) \<times> filesystem) option" where
  "index_paper globals cfg pypdf sentence_transformers p file_path fs =
     (if \<not> py_truthy (database_host cfg)
      then (case console_print globals of
              Inl e \<Rightarrow> Some (Inl e, fs)
            | Inr u \<Rightarrow> Some (Inr '''', fs))
      else (case extract_text pypdf fs file_path of
              Inl e \<Rightarrow> Some (Inl e, fs)
            | Inr text \<Rightarrow>
                (case chunk_text text 1000 200 of
                   None \<Rightarrow> None
                 | Some chunks \<Rightarrow>
                     (case (generate_embeddings globals cfg sentence_transformers chunks
                              :: error + 'v list) of
                        Inl e \<Rightarrow> Some (Inl e, fs)
                      | Inr embeddings \<Rightarrow>
                          Some (store_in_db globals p chunks embeddings, fs)))))"

subsection \<open>The index store: \<^verbatim>\<open>SurrealDBClient\<close>\<close>

text \<open>
  \<^verbatim>\<open>
  def add_paper(self, paper):
      if not self.client:
          return ""
      try:
          result = self.client.query("CREATE papers SET " f"id = '{paper.get('id', '')}', " ...)
          return str(result)
      except Exception as e:
          raise Exception(f"...: {e}")
  def add_chunk(self, paper_id, content, embedding):
      if not self.client:
          return ""
      try:
          result = self.client.query("CREATE chunks SET " f"paper_id = '{paper_id}', " ...)
          return str(result)
      except Exception as e:
          raise Exception(f"...: {e}")
  def delete_paper(self, paper_id):
      if not self.client:
          return False
      try:
          self.client.query(f"DELETE FROM papers WHERE id = '{paper_id}'")
          self.client.query(f"DELETE FROM chunks WHERE paper_id = '{paper_id}'")
          return True
      except Exception as e:
          raise Exception(f"...: {e}")
  \<close>
  A query text is represented by the statement it spells: which table it creates a row
  in or deletes from, and the values the f-string interpolates (titles, abstracts and
  chunk contents with each quote doubled). The connected client is external: it is the
  function that runs a statement and gives \<^verbatim>\<open>str(result)\<close> or raises. The object records
  the statements it has sent to the store.
\<close>

definition sql_escape :: "string \<Rightarrow> string" where
  "sql_escape s = concat (map (\<lambda>c. if c = CHR 0x27 then [CHR 0x27, CHR 0x27] else [c]) s)"

record paper_row =
  row_id :: string
  row_title :: string
  row_authors :: "authorship list"
  row_year :: int
  row_abstract :: string
  row_local_path :: string
  row_doi :: string

datatype 'v statement =
    CreatePaper paper_row
  | CreateChunk string string 'v
  | DeletePapers string
  | DeleteChunks string

record 'v surrealdb_client =
  client :: "('v statement \<Rightarrow> error + string) option"
  sent :: "'v statement list"

definition or_default :: "'a \<Rightarrow> 'a option \<Rightarrow> 'a" where
  "or_default d v = (case v of None \<Rightarrow> d | Some x \<Rightarrow> x)"

definition paper_row_of :: "paper \<Rightarrow> paper_row" where
  "paper_row_of p =
     \<lparr>row_id = or_default '''' (paper_id p),
      row_title = sql_escape (or_default '''' (title p)),
      row_authors = or_default [] (authorships p),
      row_year = or_default 0 (publication_year p),
      row_abstract = sql_escape (or_default '''' (abstract p)),
      row_local_path = or_default '''' (local_path p),
      row_doi = or_default '''' (doi p)\<rparr>"

definition add_paper ::
  "'v surrealdb_client \<Rightarrow> paper \<Rightarrow> (error + string) \<times> 'v surrealdb_client" where
  "add_paper db p =
     (case client db of
        None \<Rightarrow> (Inr '''', db)
      | Some query \<Rightarrow>
          (let stmt = CreatePaper (paper_row_of p);
               db' = db\<lparr>sent := sent db @ [stmt]\<rparr>
           in case query stmt of
                Inl e \<Rightarrow> (Inl (Wrapped AddPaper e), db')
              | Inr result \<Rightarrow> (Inr result, db')))"

definition add_chunk ::
  "'v surrealdb_client \<Rightarrow> string \<Rightarrow> string \<Rightarrow> 'v \<Rightarrow> (error + string) \<times> 'v surrealdb_client" where
  "add_chunk db pid content embedding =
     (case client db of
        None \<Rightarrow> (Inr '''', db)
      | Some query \<Rightarrow>
          (let stmt = CreateChunk pid (sql_escape content) embedding;
               db' = db\<lparr>sent := sent db @ [stmt]\<rparr>
           in case query stmt of
                Inl e \<Rightarrow> (Inl (Wrapped AddChunk e), db')
              | Inr result \<Rightarrow> (Inr result, db')))"

definition delete_paper ::
  "'v surrealdb_client \<Rightarrow> string \<Rightarrow> (error + bool) \<times> 'v surrealdb_client" where
  "delete_paper db pid =
     (case client db of
        None \<Rightarrow> (Inr False, db)
      | Some query \<Rightarrow>
          (let db1 = db\<lparr>sent := sent db @ [DeletePapers pid]\<rparr>
           in case query (DeletePapers pid) of
                Inl e \<Rightarrow> (Inl (Wrapped DeletePaper e), db1)
              | Inr r1 \<Rightarrow>
                  (let db2 = db1\<lparr>sent := sent db1 @ [DeleteChunks pid]\<rparr>
                   in case query (DeleteChunks pid) of
                        Inl e \<Rightarrow> (Inl (Wrapped DeletePaper e), db2)
                      | Inr r2 \<Rightarrow> (Inr True, db2))))"

subsection \<open>Example inputs\<close>

definition mikolov :: paper where
  "mikolov =
     \<lparr>paper_id = Some ''W1614298861'',
      title = Some ''Efficient Estimation of Word Representations in a Vector Space Model'',
      publication_year = Some 2013,
      authorships = Some [\<lparr>author = Some \<lparr>display_name = Some ''Tomas Mikolov''\<rparr>\<rparr>,
                          \<lparr>author = Some \<lparr>display_name = Some ''Jeffrey Dean''\<rparr>\<rparr>],
      abstract = None, local_path = None, doi = None\<rparr>"

definition no_database :: config where
  "no_database = \<lparr>database_host = None, llm_api_key = None, llm_provider = None\<rparr>"


definition not_connected :: "nat surrealdb_client" where
  "not_connected = \<lparr>client = None, sent = []\<rparr>"

definition connected_empty_result :: "nat surrealdb_client" where
  "connected_empty_result = \<lparr>client = Some (\<lambda>stmt. Inr ''''), sent = []\<rparr>"

section \<open>Theorems\<close>

subsection \<open>The chunker does not return when the overlap is positive\<close>

text \<open>
  A set of loop states that is closed under the loop body and lies below \<open>len(text)\<close>
  is never left: neither the \<^verbatim>\<open>while\<close> test nor the \<^verbatim>\<open>break\<close> test can succeed.
\<close>

lemma chunk_loop_returns_no_invariant:
  assumes inv: "\<And>s. I s \<Longrightarrow> fst s < int (length text0) \<and> I (chunk_step text0 cs0 ov0 s)"
    and ret0: "chunk_loop text0 cs0 ov0 st0 = Some y0"
  shows "\<not> I st0"
proof -
  have "text0 = text0 \<and> cs0 = cs0 \<and> ov0 = ov0 \<longrightarrow> \<not> I st0"
  proof (rule chunk_loop.raw_induct [OF _ ret0, where P = "\<lambda>t cs ov st y.
      t = text0 \<and> cs = cs0 \<and> ov = ov0 \<longrightarrow> \<not> I st"])
    fix loop :: "'a list \<Rightarrow> int \<Rightarrow> int \<Rightarrow> int \<times> 'a list list \<Rightarrow> 'a list list option"
    fix t :: "'a list" and cs ov :: int and st :: "int \<times> 'a list list" and y :: "'a list list"
    assume IH: "\<And>t cs ov st y. loop t cs ov st = Some y \<Longrightarrow>
      t = text0 \<and> cs = cs0 \<and> ov = ov0 \<longrightarrow> \<not> I st"
    assume ret: "(if fst st < int (length t)
        then let st' = chunk_step t cs ov st
             in if int (length t) \<le> fst st' then Some (snd st') else loop t cs ov st'
        else Some (snd st)) = Some y"
    show "t = text0 \<and> cs = cs0 \<and> ov = ov0 \<longrightarrow> \<not> I st"
    proof (intro impI notI)
      assume eq: "t = text0 \<and> cs = cs0 \<and> ov = ov0" and st: "I st"
      from inv [OF st] eq have lt: "fst st < int (length t)" and st': "I (chunk_step t cs ov st)"
        by simp_all
      from inv [OF st'] eq have lt': "fst (chunk_step t cs ov st) < int (length t)"
        by simp
      from ret lt have "(let st' = chunk_step t cs ov st
           in if int (length t) \<le> fst st' then Some (snd st') else loop t cs ov st') = Some y"
        by (simp only: if_True)
      with lt' have "loop t cs ov (chunk_step t cs ov st) = Some y"
        by (simp add: Let_def)
      from IH [OF this] eq st' show False
        by simp
    qed
  qed
  then show ?thesis
    by simp
qed

lemma chunk_loop_diverges:
  assumes "I st"
    and "\<And>s. I s \<Longrightarrow> fst s < int (length text0) \<and> I (chunk_step text0 cs ov s)"
  shows "chunk_loop text0 cs ov st = None"
proof (cases "chunk_loop text0 cs ov st")
  case None
  then show ?thesis .
next
  case (Some y)
  from chunk_loop_returns_no_invariant [of I text0 cs ov st y, OF assms(2) Some] assms(1)
  show ?thesis
    by simp
qed

lemma fst_chunk_step:
  "fst (chunk_step text cs ov st) = min (fst st + cs) (int (length text)) - ov"
  by (simp add: chunk_step_def Let_def)

lemma chunk_text_overlap_diverges:
  assumes "text \<noteq> []" and "0 < overlap"
  shows "chunk_text text chunk_size overlap = None"
  unfolding chunk_text_def
proof (rule chunk_loop_diverges [where I = "\<lambda>s. fst s < int (length text)"])
  show "fst (0::int, []) < int (length text)"
    using assms(1) by simp
next
  fix s :: "int \<times> 'a list list"
  assume "fst s < int (length text)"
  with assms(2) show "fst s < int (length text) \<and>
      fst (chunk_step text chunk_size overlap s) < int (length text)"
    by (simp add: fst_chunk_step)
qed


lemma chunk_text_empty: "chunk_text [] chunk_size overlap = Some []"
  by (simp add: chunk_text_def chunk_loop.simps)

lemma py_slice_inside:
  assumes "0 \<le> i" and "i \<le> j" and "j \<le> int (length xs)"
  shows "py_slice xs i j = take (nat (j - i)) (drop (nat i) xs)"
  using assms by (simp add: py_slice_def py_clamp_def Let_def nat_diff_distrib min_def nat_le_iff)

text \<open>
  Claim C1 (termination of the chunker on valid inputs) fails on the code: with
  \<open>text = "ab"\<close>, \<open>chunk_size = 2\<close>, \<open>overlap = 1\<close> (so \<open>0 \<le> overlap < size\<close>) the second
  iteration starts at offset 1, ends at 2 and sets \<open>start\<close> back to 1; the call never
  returns.
\<close>

theorem chunk_text_ab_never_returns: "chunk_text ''ab'' 2 1 = None"
  by (rule chunk_text_overlap_diverges) simp_all

text \<open>
  Claim C2 (re-assembling the chunks yields the text) fails on the code for the same
  reason: with \<open>text = "abcde"\<close>, \<open>chunk_size = 3\<close>, \<open>overlap = 1\<close> the loop appends
  \<open>"abc"\<close>, \<open>"cde"\<close> and then \<open>"e"\<close> for ever, so no chunk list is returned that could be
  re-assembled.
\<close>

theorem chunk_text_abcde_never_returns: "chunk_text ''abcde'' 3 1 = None"
  by (rule chunk_text_overlap_diverges) simp_all

subsection \<open>Without overlap the chunker returns, and its chunks tile the text\<close>

lemma ceil_div_zero: "ceil_div 0 b = 0"
  by (simp add: ceil_div_def)

lemma ceil_div_one:
  assumes "0 < a" and "a \<le> b"
  shows "ceil_div a b = 1"
proof -
  have "(- a) div b = - 1"
    using assms
    by (metis add.right_inverse add_le_cancel_right div_minus_right div_pos_neg_trivial)
  then show ?thesis
    by (simp add: ceil_div_def)
qed

lemma ceil_div_add_self:
  assumes "0 < b"
  shows "ceil_div (a + b) b = ceil_div a b + 1"
proof -
  have "(- a + (- 1) * b) div b = - 1 + (- a) div b"
    using assms by (intro div_mult_self1) simp
  then have "(- (a + b)) div b = (- a) div b - 1"
    by simp
  then show ?thesis
    by (simp add: ceil_div_def)
qed

lemma ceiling_divide_ceil_div: "\<lceil>real_of_int a / real_of_int b\<rceil> = ceil_div a b"
  by (simp add: ceil_div_def ceiling_divide_eq_div)

lemma chunk_loop_no_overlap:
  assumes pos: "0 < chunk_size"
  shows "0 \<le> start \<Longrightarrow>
    \<exists>cs. chunk_loop text0 chunk_size 0 (start, chunks) = Some (chunks @ cs) \<and>
      concat cs = drop (nat start) text0 \<and>
      int (length cs) = ceil_div (max (int (length text0) - start) 0) chunk_size"
proof (induction "nat (int (length text0) - start)" arbitrary: start chunks rule: less_induct)
  case less
  let ?L = "int (length text0)"
  show ?case
  proof (cases "start < ?L")
    case False
    then have "chunk_loop text0 chunk_size 0 (start, chunks) = Some chunks"
      by (simp add: chunk_loop.simps)
    moreover from False less.prems have "drop (nat start) text0 = []"
      by simp
    moreover from False have "max (?L - start) 0 = 0"
      by simp
    ultimately show ?thesis
      by (simp add: ceil_div_zero)
  next
    case True
    define endpos where "endpos = min (start + chunk_size) ?L"
    define piece where "piece = take (nat (endpos - start)) (drop (nat start) text0)"
    have bounds: "start \<le> endpos" "endpos \<le> ?L"
      using True pos by (simp_all add: endpos_def)
    have step: "chunk_step text0 chunk_size 0 (start, chunks) = (endpos, chunks @ [piece])"
      using py_slice_inside [OF less.prems bounds]
      by (simp add: chunk_step_def Let_def endpos_def piece_def)
    show ?thesis
    proof (cases "?L \<le> endpos")
      case True
      with bounds have e: "endpos = ?L"
        by simp
      from \<open>start < ?L\<close> step True
      have "chunk_loop text0 chunk_size 0 (start, chunks) = Some (chunks @ [piece])"
        by (subst chunk_loop.simps) (simp add: Let_def)
      moreover have "piece = drop (nat start) text0"
        using less.prems by (simp add: piece_def e nat_diff_distrib)
      moreover have "ceil_div (max (?L - start) 0) chunk_size = 1"
      proof -
        from e have "?L \<le> start + chunk_size"
          by (simp add: endpos_def)
        with \<open>start < ?L\<close> show ?thesis
          by (simp add: ceil_div_one max_def)
      qed
      ultimately show ?thesis
        by simp
    next
      case False
      then have e: "endpos = start + chunk_size" and lt: "start + chunk_size < ?L"
        by (simp_all add: endpos_def min_def split: if_splits)
      have "nat (?L - endpos) < nat (?L - start)"
        using e lt pos by simp
      moreover have "0 \<le> endpos"
        using e less.prems pos by simp
      ultimately obtain cs where
        run: "chunk_loop text0 chunk_size 0 (endpos, chunks @ [piece]) = Some ((chunks @ [piece]) @ cs)"
        and cat: "concat cs = drop (nat endpos) text0"
        and len: "int (length cs) = ceil_div (max (?L - endpos) 0) chunk_size"
        using less.hyps [of endpos "chunks @ [piece]"] by blast
      from \<open>start < ?L\<close> step False run
      have "chunk_loop text0 chunk_size 0 (start, chunks) = Some (chunks @ (piece # cs))"
        by (subst chunk_loop.simps) (simp add: Let_def)
      moreover have "concat (piece # cs) = drop (nat start) text0"
      proof -
        have "nat endpos = nat start + nat chunk_size"
          using e less.prems pos by (simp add: nat_add_distrib)
        moreover have "nat (endpos - start) = nat chunk_size"
          using e by simp
        ultimately show ?thesis
          by (simp add: cat piece_def add.commute [of "nat start"] flip: drop_drop)
      qed
      moreover have "int (length (piece # cs)) = ceil_div (max (?L - start) 0) chunk_size"
      proof -
        have "max (?L - start) 0 = max (?L - endpos) 0 + chunk_size"
          using e lt pos by (simp add: max_def)
        then show ?thesis
          using len pos by (simp add: ceil_div_add_self)
      qed
      ultimately show ?thesis
        by blast
    qed
  qed
qed


lemma chunk_text_no_overlap:
  assumes "0 < chunk_size"
  shows "\<exists>cs. chunk_text text0 chunk_size 0 = Some cs \<and> concat cs = text0 \<and>
      int (length cs) = ceil_div (int (length text0)) chunk_size"
  using chunk_loop_no_overlap [OF assms, of 0 text0 "[]"]
  by (simp add: chunk_text_def)

lemma chunk_text_single:
  assumes "text0 \<noteq> []" and "int (length text0) \<le> chunk_size"
  shows "chunk_text text0 chunk_size 0 = Some [text0]"
proof -
  from assms have pos: "0 < chunk_size"
    by (cases "text0") simp_all
  from chunk_text_no_overlap [OF pos, of text0] obtain cs where
    run: "chunk_text text0 chunk_size 0 = Some cs" and cat: "concat cs = text0"
    and len: "int (length cs) = ceil_div (int (length text0)) chunk_size"
    by blast
  from assms have "ceil_div (int (length text0)) chunk_size = 1"
    by (intro ceil_div_one) simp_all
  with len have "length cs = 1"
    by simp
  then obtain c where "cs = [c]"
    by (cases cs) simp_all
  with cat run show ?thesis
    by simp
qed

lemma spec_chunk_count_no_overlap:
  "spec_chunk_count L chunk_size 0 = ceil_div (int L) chunk_size"
  using ceiling_divide_ceil_div [of "int L" chunk_size]
  by (simp add: spec_chunk_count_def ceil_div_zero)

lemma chunk_text_no_overlap_reassembles:
  assumes "0 < chunk_size"
  shows "\<exists>cs. chunk_text text0 chunk_size 0 = Some cs \<and> spec_reassemble 0 cs = text0"
proof -
  from chunk_text_no_overlap [OF assms, of text0] obtain cs where
    run: "chunk_text text0 chunk_size 0 = Some cs" and cat: "concat cs = text0"
    by blast
  from cat have "spec_reassemble 0 cs = text0"
    by (cases cs) simp_all
  with run show ?thesis
    by simp
qed

lemma chunk_step_lengths:
  assumes "0 \<le> fst st" and "fst st \<le> int (length t)" and "0 \<le> cs"
  shows "fst (chunk_step t cs ov st) = min (fst st + cs) (int (length t)) - ov \<and>
    map length (snd (chunk_step t cs ov st)) =
      map length (snd st) @ [nat (min (fst st + cs) (int (length t)) - fst st)]"
proof -
  let ?e = "min (fst st + cs) (int (length t))"
  have "fst st \<le> ?e" and "?e \<le> int (length t)"
    using assms by simp_all
  from py_slice_inside [OF assms(1) this]
  have "py_slice t (fst st) ?e = take (nat (?e - fst st)) (drop (nat (fst st)) t)" .
  moreover have "nat (?e - fst st) \<le> length t - nat (fst st)"
    using assms by arith
  ultimately have "length (py_slice t (fst st) ?e) = nat (?e - fst st)"
    by simp
  then show ?thesis
    by (simp add: chunk_step_def Let_def)
qed

lemma chunk_step_2500:
  assumes "length doc = 2500"
  shows "map fst [(chunk_step doc 1000 200 ^^ 0) (0, []), (chunk_step doc 1000 200 ^^ 1) (0, []),
       (chunk_step doc 1000 200 ^^ 2) (0, [])] = [0, 800, 1600] \<and>
     map length (snd ((chunk_step doc 1000 200 ^^ 3) (0, []))) = [1000, 1000, 900]"
proof -
  define s1 where "s1 = chunk_step doc 1000 200 (0, [])"
  define s2 where "s2 = chunk_step doc 1000 200 s1"
  define s3 where "s3 = chunk_step doc 1000 200 s2"
  have 1: "fst s1 = 800 \<and> map length (snd s1) = [1000]"
    using chunk_step_lengths [of "(0, [])" doc 1000 200] assms
    by (simp add: s1_def)
  have 2: "fst s2 = 1600 \<and> map length (snd s2) = [1000, 1000]"
    using chunk_step_lengths [of s1 doc 1000 200] assms 1
    by (simp add: s2_def)
  have 3: "map length (snd s3) = [1000, 1000, 900]"
    using chunk_step_lengths [of s2 doc 1000 200] assms 2
    by (simp add: s3_def)
  have "(chunk_step doc 1000 200 ^^ 3) (0, []) = s3"
    by (simp add: numeral_3_eq_3 s1_def s2_def s3_def)
  moreover have "(chunk_step doc 1000 200 ^^ 2) (0, []) = s2"
    by (simp add: numeral_2_eq_2 s1_def s2_def)
  moreover have "(chunk_step doc 1000 200 ^^ 1) (0, []) = s1"
    by (simp add: s1_def)
  ultimately show ?thesis
    using 1 2 3 by simp
qed

text \<open>
  Claim C3 as stated fails at its own instance: for a text of 2500 characters with
  \<open>chunk_size = 1000\<close> and \<open>overlap = 200\<close> the third chunk the loop appends is
  \<open>text[1600:2500]\<close>, 900 characters long and not 700, and the call does not return three
  chunks (it does not return).
\<close>

theorem chunk_text_2500_counterexample:
  "map length (snd ((chunk_step (replicate 2500 CHR ''a'') 1000 200 ^^ 3) (0, [])))
     = [1000, 1000, 900] \<and>
   chunk_text (replicate 2500 CHR ''a'') 1000 200 = None"
proof -
  have len: "length (replicate 2500 CHR ''a'') = 2500"
    by (rule length_replicate)
  have "replicate 2500 CHR ''a'' \<noteq> []"
    using len by (metis length_0_conv zero_neq_numeral)
  then have "chunk_text (replicate 2500 CHR ''a'') 1000 200 = None"
    by (rule chunk_text_overlap_diverges) simp
  with chunk_step_2500 [OF len] show ?thesis
    by (simp only: simp_thms)
qed

text \<open>
  Claim C3, amended: the chunker returns the empty sequence for the empty text, whatever
  the parameters; with \<open>overlap = 0\<close> and \<open>size > 0\<close> it returns exactly
  \<open>ceil(max(L - overlap, 0) / (size - overlap))\<close> chunks, and the single chunk \<open>text\<close> when
  \<open>0 < L \<le> size\<close>; for a text of 2500 characters with \<open>size = 1000\<close> and \<open>overlap = 200\<close>
  the first three chunks the loop appends start at offsets 0, 800 and 1600 and have
  lengths 1000, 1000 and 900.
\<close>

theorem chunk_text_count:
  fixes text0 doc :: "'a list"
  assumes "0 < chunk_size" and "length doc = 2500"
  shows "chunk_text ([] :: 'a list) size0 overlap0 = Some [] \<and>
    (\<exists>cs. chunk_text text0 chunk_size 0 = Some cs \<and>
       int (length cs) = spec_chunk_count (length text0) chunk_size 0 \<and>
       (text0 \<noteq> [] \<and> int (length text0) \<le> chunk_size \<longrightarrow> cs = [text0])) \<and>
    map fst [(chunk_step doc 1000 200 ^^ 0) (0, []), (chunk_step doc 1000 200 ^^ 1) (0, []),
       (chunk_step doc 1000 200 ^^ 2) (0, [])] = [0, 800, 1600] \<and>
    map length (snd ((chunk_step doc 1000 200 ^^ 3) (0, []))) = [1000, 1000, 900]"
proof -
  from chunk_text_no_overlap [OF assms(1), of text0] obtain cs where
    run: "chunk_text text0 chunk_size 0 = Some cs"
    and len: "int (length cs) = ceil_div (int (length text0)) chunk_size"
    by blast
  have single: "cs = [text0]" if "text0 \<noteq> []" and "int (length text0) \<le> chunk_size"
    using chunk_text_single [OF that] run by simp
  have count: "int (length cs) = spec_chunk_count (length text0) chunk_size 0"
    using len by (simp only: spec_chunk_count_no_overlap)
  have "chunk_text text0 chunk_size 0 = Some cs \<and>
       int (length cs) = spec_chunk_count (length text0) chunk_size 0 \<and>
       (text0 \<noteq> [] \<and> int (length text0) \<le> chunk_size \<longrightarrow> cs = [text0])"
    using run count single by blast
  then have ex: "\<exists>cs. chunk_text text0 chunk_size 0 = Some cs \<and>
       int (length cs) = spec_chunk_count (length text0) chunk_size 0 \<and>
       (text0 \<noteq> [] \<and> int (length text0) \<le> chunk_size \<longrightarrow> cs = [text0])"
    by (rule exI)
  have empty: "chunk_text ([] :: 'a list) size0 overlap0 = Some []"
    by (rule chunk_text_empty)
  from empty ex chunk_step_2500 [OF assms(2)] show ?thesis
    by (intro conjI) (simp_all only: simp_thms)
qed

theorem chunk_text_count_witness:
  "(0::int) < 5 \<and> length (replicate 2500 CHR ''a'') = 2500 \<and>
   ''ab'' \<noteq> [] \<and> int (length ''ab'') \<le> 5 \<and>
   chunk_text ([] :: char list) 7 2 = Some [] \<and>
   chunk_text ''ab'' 5 0 = Some [''ab''] \<and>
   spec_chunk_count (length ''ab'') 5 0 = 1 \<and>
   map length (snd ((chunk_step (replicate 2500 CHR ''a'') 1000 200 ^^ 3) (0, [])))
     = [1000, 1000, 900]"
proof -
  have h1: "(0::int) < 5"
    by simp
  have h2: "length (replicate 2500 CHR ''a'') = 2500"
    by (rule length_replicate)
  have h3: "''ab'' \<noteq> [] \<and> int (length ''ab'') \<le> 5"
    by simp
  note inst = chunk_text_count [OF h1 h2, of 7 2 "''ab''"]
  from inst have empty: "chunk_text ([] :: char list) 7 2 = Some []"
    by (rule conjunct1)
  from inst have lens:
    "map length (snd ((chunk_step (replicate 2500 CHR ''a'') 1000 200 ^^ 3) (0, [])))
       = [1000, 1000, 900]"
    by (elim conjE)
  from inst obtain cs where run: "chunk_text ''ab'' 5 0 = Some cs"
    and count: "int (length cs) = spec_chunk_count (length ''ab'') 5 0"
    and single: "''ab'' \<noteq> [] \<and> int (length ''ab'') \<le> 5 \<longrightarrow> cs = [''ab'']"
    by (elim conjE exE)
  from single h3 have cs: "cs = [''ab'']"
    by (rule mp)
  from count cs have "spec_chunk_count (length ''ab'') 5 0 = 1"
    by simp
  with h1 h2 h3 empty lens run cs show ?thesis
    by (simp only: simp_thms)
qed




subsection \<open>The destination file name\<close>

lemma length_py_strip: "length (py_strip s) \<le> length s"
proof -
  have "length (py_strip s) \<le> length (dropWhile py_isspace s)"
    unfolding py_strip_def length_rev
    by (rule order_trans [OF length_dropWhile_le]) simp
  also have "\<dots> \<le> length s"
    by (rule length_dropWhile_le)
  finally show ?thesis .
qed

lemma length_safe_title: "length (safe_title t) \<le> 50"
proof -
  have "length (safe_title t) \<le> length (take 50 (filter retained t))"
    unfolding safe_title_def replace_spaces_def length_map
    by (rule length_py_strip)
  also have "\<dots> \<le> 50"
    by simp
  finally show ?thesis .
qed

lemma no_space_in_safe_title: "CHR '' '' \<notin> set (safe_title t)"
  by (auto simp add: safe_title_def replace_spaces_def)

lemma author_lastname_first:
  assumes "py_split (first_author_name a) \<noteq> []"
  shows "author_lastname (a # rest) =
    Inr (if CHR '' '' \<in> set (first_author_name a)
         then last (py_split (first_author_name a)) else first_author_name a)"
  using assms
  by (cases "py_split (first_author_name a)") (simp_all add: author_lastname_def Let_def)

text \<open>
  Claim C5 as stated fails: the code takes the surname from the first author of the
  list, not the last, and strips the truncated title before it replaces the spaces. For
  the paper \<open>mikolov\<close> (authors Tomas Mikolov, Jeffrey Dean; the first 50 retained
  characters of the title end in a space) the code names the file after Mikolov and
  ends the title part in \<open>in_a\<close>, where the claim gives Dean and \<open>in_a_\<close>.
\<close>

theorem download_filename_counterexample:
  "download_filename mikolov =
     Inr ''Mikolov_2013_Efficient_Estimation_of_Word_Representations_in_a.pdf'' \<and>
   spec_filename ''Efficient Estimation of Word Representations in a Vector Space Model'' 2013
       [''Tomas Mikolov'', ''Jeffrey Dean''] =
     ''Dean_2013_Efficient_Estimation_of_Word_Representations_in_a_.pdf''"
  by code_simp

text \<open>
  Claim C5, amended: for every paper descriptor with a title, a publication year and a
  non-empty ordered author list whose first author's display name has a word in it, the
  destination file name is \<open>{surname}_{year}_{sanitizedTitle}.pdf\<close>, where \<open>sanitizedTitle\<close>
  is the title with only alphanumerics, spaces, dashes and underscores retained,
  truncated to 50 characters, stripped of leading and trailing spaces, and with the
  remaining spaces replaced by underscores (so it has at most 50 characters and no
  space), and \<open>surname\<close> is taken from the first author of the list: the last word of the
  display name when the name contains a space, else the whole name.
\<close>

theorem download_filename_first_author:
  assumes "title p = Some t"
    and "publication_year p = Some y"
    and "authorships p = Some (a # rest)"
    and "py_split (first_author_name a) \<noteq> []"
  shows "download_filename p =
      Inr ((if CHR '' '' \<in> set (first_author_name a)
            then last (py_split (first_author_name a)) else first_author_name a)
           @ ''_'' @ py_str_int y @ ''_''
           @ replace_spaces (py_strip (take 50 (filter retained t))) @ ''.pdf'') \<and>
    length (safe_title t) \<le> 50 \<and> CHR '' '' \<notin> set (safe_title t)"
proof -
  have "download_filename p =
      Inr ((if CHR '' '' \<in> set (first_author_name a)
            then last (py_split (first_author_name a)) else first_author_name a)
           @ ''_'' @ py_str_int y @ ''_''
           @ replace_spaces (py_strip (take 50 (filter retained t))) @ ''.pdf'')"
    using assms(1-3) author_lastname_first [OF assms(4), of rest]
    by (simp add: download_filename_def safe_title_def)
  with length_safe_title [of t] no_space_in_safe_title [of t] show ?thesis
    by (simp only: simp_thms)
qed

theorem download_filename_first_author_witness:
  "title mikolov = Some ''Efficient Estimation of Word Representations in a Vector Space Model'' \<and>
   publication_year mikolov = Some 2013 \<and>
   py_split ''Tomas Mikolov'' = [''Tomas'', ''Mikolov''] \<and>
   download_filename mikolov =
     Inr ((if CHR '' '' \<in> set ''Tomas Mikolov'' then last (py_split ''Tomas Mikolov'')
           else ''Tomas Mikolov'')
          @ ''_'' @ py_str_int 2013 @ ''_''
          @ replace_spaces (py_strip (take 50 (filter retained
              ''Efficient Estimation of Word Representations in a Vector Space Model'')))
          @ ''.pdf'')"
proof -
  let ?first = "\<lparr>author = Some \<lparr>display_name = Some ''Tomas Mikolov''\<rparr>\<rparr>"
  let ?second = "\<lparr>author = Some \<lparr>display_name = Some ''Jeffrey Dean''\<rparr>\<rparr>"
  have h1: "title mikolov =
      Some ''Efficient Estimation of Word Representations in a Vector Space Model''"
    by (simp add: mikolov_def)
  have h2: "publication_year mikolov = Some 2013"
    by (simp add: mikolov_def)
  have h3: "authorships mikolov = Some (?first # [?second])"
    by (simp add: mikolov_def)
  have name: "first_author_name ?first = ''Tomas Mikolov''"
    by (simp add: first_author_name_def)
  have words: "py_split ''Tomas Mikolov'' = [''Tomas'', ''Mikolov'']"
    by code_simp
  have h4: "py_split (first_author_name ?first) \<noteq> []"
    by (simp add: name words)
  from download_filename_first_author [OF h1 h2 h3 h4] h1 h2 words show ?thesis
    by (simp only: name simp_thms)
qed

subsection \<open>The text extractor\<close>

lemma collect_pages_all_succeed:
  "collect_pages (map Inr texts) text_parts = Inr (text_parts @ filter (\<lambda>t. t \<noteq> []) texts)"
  by (induction texts arbitrary: text_parts) simp_all

lemma collect_pages_page_fails:
  "collect_pages (map Inr texts @ Inl e # rest) text_parts = Inl e"
  by (induction texts arbitrary: text_parts) simp_all

text \<open>
  Claim C7 as stated fails: a page whose extraction raises is not skipped. The single
  \<^verbatim>\<open>try\<close> around the loop catches the page's exception and raises the extraction error,
  so no text is returned, although the pages before and after it can be extracted.
\<close>

theorem extract_text_counterexample:
  "extract_text (\<lambda>file. Inr [Inr ''Abstract'', Inl (LibraryError ''page 2''), Inr ''References''])
     [(''papers'', ''a.pdf'') \<mapsto> ''%PDF-1.4''] (''papers'', ''a.pdf'')
   = Inl (Wrapped ExtractText (LibraryError ''page 2''))"
  by (simp add: extract_text_def)

text \<open>
  Claim C7, amended: for every PDF file that can be opened, the text extraction
  concatenates the non-empty per-page texts with a paragraph-break separator, skipping
  the pages whose text is empty; when the extraction of any page fails, the extraction
  of the document fails with the extraction error that wraps the page's exception.
\<close>

theorem extract_text_pages:
  assumes "pypdf (fs file_path) = Inr (map Inr texts)"
    and "pypdf' (fs' file_path') = Inr (map Inr before @ Inl e # rest)"
  shows "extract_text pypdf fs file_path =
      Inr (py_join paragraph_break (filter (\<lambda>t. t \<noteq> []) texts)) \<and>
    extract_text pypdf' fs' file_path' = Inl (Wrapped ExtractText e)"
  using assms
  by (simp add: extract_text_def collect_pages_all_succeed collect_pages_page_fails)

theorem extract_text_pages_witness:
  "extract_text (\<lambda>file. Inr [Inr ''Abstract'', Inr '''', Inr ''References''])
     [(''papers'', ''a.pdf'') \<mapsto> ''%PDF-1.4''] (''papers'', ''a.pdf'')
   = Inr (''Abstract'' @ [CHR 0x0A, CHR 0x0A] @ ''References'') \<and>
   extract_text (\<lambda>file. Inr [Inr ''Abstract'', Inl (LibraryError ''page 2''), Inr ''References''])
     [(''papers'', ''a.pdf'') \<mapsto> ''%PDF-1.4''] (''papers'', ''a.pdf'')
   = Inl (Wrapped ExtractText (LibraryError ''page 2''))"
proof -
  let ?fs = "[(''papers'', ''a.pdf'') \<mapsto> ''%PDF-1.4'']"
  let ?good = "\<lambda>file :: bytes option.
    (Inr [Inr ''Abstract'', Inr '''', Inr ''References''] :: error + page list)"
  let ?bad = "\<lambda>file :: bytes option.
    (Inr [Inr ''Abstract'', Inl (LibraryError ''page 2''), Inr ''References'']
      :: error + page list)"
  have h1: "?good (?fs (''papers'', ''a.pdf'')) =
      Inr (map Inr [''Abstract'', '''', ''References''])"
    by simp
  have h2: "?bad (?fs (''papers'', ''a.pdf'')) =
      Inr (map Inr [''Abstract''] @ Inl (LibraryError ''page 2'') # [Inr ''References''])"
    by simp
  from extract_text_pages [of ?good ?fs "(''papers'', ''a.pdf'')" _ ?bad ?fs
      "(''papers'', ''a.pdf'')", OF h1 h2]
  show ?thesis
    by (simp add: paragraph_break_def)
qed

subsection \<open>Writing the download\<close>






subsection \<open>Embeddings and indexing\<close>

lemma console_print_unbound: "console_print downloader_globals = Inl (NameError ''console'')"
  by (simp add: console_print_def downloader_globals_def)

lemma console_print_bound: "''console'' \<in> set globals \<Longrightarrow> console_print globals = Inr ()"
  by (simp add: console_print_def)

lemma index_paper_skips_when_console_bound:
  assumes "\<not> py_truthy (database_host cfg)" and "''console'' \<in> set globals"
  shows "index_paper globals cfg pypdf sentence_transformers p file_path fs = Some (Inr '''', fs)"
  using assms by (simp add: index_paper_def console_print_bound)

text \<open>
  Claim C4 (with no database configured, indexing returns the skipped result without
  raising and leaves the file intact) fails on the code as \<^verbatim>\<open>downloader.py\<close> is written:
  the not-configured branch first prints through the global \<^verbatim>\<open>console\<close>, which the
  module never binds, so the call raises \<^verbatim>\<open>NameError\<close> before it reaches
  \<^verbatim>\<open>return ""\<close>. The file system is left as it was.
\<close>

theorem index_paper_no_database_raises:
  assumes "\<not> py_truthy (database_host cfg)"
  shows "index_paper downloader_globals cfg pypdf sentence_transformers p file_path fs =
    Some (Inl (NameError ''console''), fs)"
  using assms by (simp add: index_paper_def console_print_unbound)

theorem index_paper_no_database_raises_witness:
  "\<not> py_truthy (database_host no_database) \<and>
   index_paper downloader_globals no_database (\<lambda>file. Inr [Inr ''Abstract''])
       (None :: nat encoder option) mikolov (''papers'', ''a.pdf'')
       [(''papers'', ''a.pdf'') \<mapsto> ''%PDF-1.4''] =
     Some (Inl (NameError ''console''), [(''papers'', ''a.pdf'') \<mapsto> ''%PDF-1.4''])"
proof -
  have h: "\<not> py_truthy (database_host no_database)"
    by (simp add: no_database_def py_truthy_def)
  from index_paper_no_database_raises [OF h] h show ?thesis
    by simp
qed

lemma generate_remote_embeddings_empty:
  "''console'' \<in> set globals \<Longrightarrow> generate_remote_embeddings globals chunks = Inr []"
  by (simp add: generate_remote_embeddings_def console_print_bound)

lemma generate_local_embeddings_not_importable:
  "''console'' \<in> set globals \<Longrightarrow> generate_local_embeddings globals None chunks = Inr []"
  by (simp add: generate_local_embeddings_def import_error_handler_def console_print_bound)

text \<open>
  Claim C6 as stated fails: with no API key configured and the local model library not
  importable, the provider returns the empty vector list for a non-empty chunk list
  when \<^verbatim>\<open>console\<close> is bound; the source has no \<^verbatim>\<open>EmbeddingUnavailable\<close> and raises nothing
  in its place. (In the namespace the module itself builds the same call raises
  \<^verbatim>\<open>NameError\<close> from its print statement.)
\<close>

theorem generate_embeddings_counterexample:
  "generate_embeddings (''console'' # downloader_globals) no_database
       (None :: nat encoder option) [''Efficient Estimation''] = Inr [] \<and>
   generate_embeddings downloader_globals no_database
       (None :: nat encoder option) [''Efficient Estimation''] = Inl (NameError ''console'')"
  by (simp add: generate_embeddings_def generate_local_embeddings_def import_error_handler_def
      console_print_def downloader_globals_def no_database_def py_truthy_def)

text \<open>
  Claim C6, amended: for every non-empty chunk list, when no usable embedding backend is
  configured or installed (the remote path is a placeholder, and the local model library
  is not importable), the embedding provider, once its \<^verbatim>\<open>console\<close> is bound, returns the
  empty vector list on either path; it does not signal \<^verbatim>\<open>EmbeddingUnavailable\<close>.
\<close>

theorem generate_embeddings_returns_empty:
  assumes "chunks \<noteq> []" and "''console'' \<in> set globals"
  shows "generate_embeddings globals cfg None chunks = Inr []"
  using assms(2)
  by (simp add: generate_embeddings_def generate_remote_embeddings_empty
      generate_local_embeddings_not_importable)

theorem generate_embeddings_returns_empty_witness:
  "[''Efficient Estimation''] \<noteq> [] \<and>
   ''console'' \<in> set (''console'' # downloader_globals) \<and>
   generate_embeddings (''console'' # downloader_globals)
       \<lparr>database_host = Some ''localhost'', llm_api_key = Some ''sk-test'',
        llm_provider = Some ''openai''\<rparr>
       (None :: nat encoder option) [''Efficient Estimation''] = Inr []"
proof -
  have h1: "[''Efficient Estimation''] \<noteq> []"
    by simp
  have h2: "''console'' \<in> set (''console'' # downloader_globals)"
    by simp
  from generate_embeddings_returns_empty [OF h1 h2] h1 h2 show ?thesis
    by simp
qed

subsection \<open>The index store\<close>

text \<open>
  Claim C10 as stated fails in one part: without a client, \<^verbatim>\<open>add_paper\<close> returns the
  empty string, which is not a result that says "not configured": a connected client
  whose result prints as the empty string makes \<^verbatim>\<open>add_paper\<close> return the same value
  after it has sent its statement to the store.
\<close>

theorem add_paper_counterexample:
  "fst (add_paper not_connected mikolov) = Inr '''' \<and>
   sent (snd (add_paper not_connected mikolov)) = [] \<and>
   fst (add_paper connected_empty_result mikolov) = Inr '''' \<and>
   sent (snd (add_paper connected_empty_result mikolov)) = [CreatePaper (paper_row_of mikolov)]"
  by (simp add: add_paper_def not_connected_def connected_empty_result_def Let_def)

text \<open>
  Claim C10, amended: for every index store instance with no connected client, every
  mutation operation (insert paper, insert chunk and vector, delete paper) is a no-op
  that sends nothing to the store, never raises, and returns the empty string (the two
  inserts) or \<open>False\<close> (delete paper).
\<close>

theorem mutations_without_client:
  assumes "client db = None"
  shows "add_paper db p = (Inr '''', db) \<and>
    add_chunk db pid content embedding = (Inr '''', db) \<and>
    delete_paper db pid = (Inr False, db)"
  using assms by (simp add: add_paper_def add_chunk_def delete_paper_def)

theorem mutations_without_client_witness:
  "client not_connected = None \<and>
   add_paper not_connected mikolov = (Inr '''', not_connected) \<and>
   add_chunk not_connected ''W1614298861'' ''Efficient Estimation'' 7 = (Inr '''', not_connected) \<and>
   delete_paper not_connected ''W1614298861'' = (Inr False, not_connected)"
proof -
  have h: "client not_connected = None"
    by (simp add: not_connected_def)
  from mutations_without_client [OF h] h show ?thesis
    by simp
qed

end
